theory Spec2Isabelle
  imports Main "HOL-Library.Char_ord" "HOL-Library.List_Lexorder"
begin

section \<open>Configuration\<close>

text \<open>
  The \<^verbatim>\<open>CONFIG\<close> object of \<^verbatim>\<open>src/groq.ts\<close> (lines 8-12). The handlers read it as a
  global; here they take it as an argument, so that statements can speak about both
  values of \<^verbatim>\<open>logRequests\<close>. \<open>CONFIG\<close> is the value the source fixes.
\<close>

record config =
  port :: nat
  logRequests :: bool
  groqApiEndpoint :: string

definition CONFIG :: config where
  "CONFIG = \<lparr>port = 8080, logRequests = True, groqApiEndpoint = ''https://api.groq.com''\<rparr>"

section \<open>Platform values: header lists, bodies, URLs, thrown values\<close>

subsection \<open>Header names\<close>

text \<open>
  Header names are ASCII tokens, on which \<^verbatim>\<open>String.prototype.toLowerCase\<close> and the Fetch
  standard's byte-lowercase agree: the letters A-Z move to a-z, every other byte stays.
\<close>

definition lower_char :: "char \<Rightarrow> char" where
  "lower_char c =
     (if CHR ''A'' \<le> c \<and> c \<le> CHR ''Z'' then char_of (of_char c + (32::nat)) else c)"

definition toLowerCase :: "string \<Rightarrow> string" where
  "toLowerCase s = map lower_char s"

subsection \<open>The Headers class\<close>

text \<open>
  A \<^verbatim>\<open>Headers\<close> object is its header list: name/value pairs in insertion order, names
  in the case they were given. The operations follow the Fetch standard: names match
  byte-case-insensitively, \<^verbatim>\<open>get\<close> joins the values of a name with a comma and a
  space, \<^verbatim>\<open>set\<close> overwrites the first header of the name and removes the others,
  \<^verbatim>\<open>append\<close> adds a header at the end under the case of the first header of that name,
  and iteration (\<^verbatim>\<open>entries\<close>) is "sort and combine": the lower-cased names in
  ascending order without repetition, each with its joined value, except
  \<^verbatim>\<open>set-cookie\<close>, which yields one entry per value. Both \<^verbatim>\<open>set\<close> and \<^verbatim>\<open>append\<close>
  first normalise the value they are given: leading and trailing HTTP whitespace (tab,
  line feed, carriage return, space) is removed.

  Both also validate the name and the value and throw on an invalid one. Every name and
  value the handlers pass comes from a \<^verbatim>\<open>Headers\<close> object of the platform, which holds
  validated headers only, or is a literal of the source, so that step cannot fail here
  and a header list stands for a list of valid headers. The guards by which a browser
  drops forbidden header names are not applied by the server runtime the program is
  written for (\<^verbatim>\<open>Deno.serve\<close>), and are not modelled.
\<close>

type_synonym header_list = "(string \<times> string) list"

definition name_matches :: "string \<Rightarrow> string \<times> string \<Rightarrow> bool" where
  "name_matches name h = (toLowerCase (fst h) = toLowerCase name)"

definition header_values :: "header_list \<Rightarrow> string \<Rightarrow> string list" where
  "header_values hs name = map snd (filter (name_matches name) hs)"

fun join_values :: "string list \<Rightarrow> string" where
  "join_values [] = []"
| "join_values [v] = v"
| "join_values (v # w # vs) = v @ '', '' @ join_values (w # vs)"

definition headers_has :: "header_list \<Rightarrow> string \<Rightarrow> bool" where
  "headers_has hs name = (filter (name_matches name) hs \<noteq> [])"

definition headers_get :: "header_list \<Rightarrow> string \<Rightarrow> string option" where
  "headers_get hs name =
     (if headers_has hs name then Some (join_values (header_values hs name)) else None)"

fun set_first :: "string \<Rightarrow> string \<Rightarrow> header_list \<Rightarrow> header_list" where
  "set_first name v [] = []"
| "set_first name v (h # hs) =
     (if name_matches name h
      then (fst h, v) # filter (\<lambda>h'. \<not> name_matches name h') hs
      else h # set_first name v hs)"

definition http_whitespace :: "char \<Rightarrow> bool" where
  "http_whitespace c = (c = CHR 0x09 \<or> c = CHR 0x0A \<or> c = CHR 0x0D \<or> c = CHR 0x20)"

definition normalize_value :: "string \<Rightarrow> string" where
  "normalize_value v = rev (dropWhile http_whitespace (rev (dropWhile http_whitespace v)))"

definition headers_set :: "header_list \<Rightarrow> string \<Rightarrow> string \<Rightarrow> header_list" where
  "headers_set hs name v =
     (if headers_has hs name then set_first name (normalize_value v) hs
      else hs @ [(name, normalize_value v)])"

definition headers_append :: "header_list \<Rightarrow> string \<Rightarrow> string \<Rightarrow> header_list" where
  "headers_append hs name v =
     (case filter (name_matches name) hs of
        [] \<Rightarrow> hs @ [(name, normalize_value v)]
      | h # _ \<Rightarrow> hs @ [(fst h, normalize_value v)])"

definition sorted_names :: "header_list \<Rightarrow> string list" where
  "sorted_names hs = sort (remdups (map (\<lambda>h. toLowerCase (fst h)) hs))"

definition entries_of :: "header_list \<Rightarrow> string \<Rightarrow> header_list" where
  "entries_of hs name =
     (if name = ''set-cookie'' then map (\<lambda>v. (name, v)) (header_values hs name)
      else [(name, join_values (header_values hs name))])"

definition headers_entries :: "header_list \<Rightarrow> header_list" where
  "headers_entries hs = concat (map (entries_of hs) (sorted_names hs))"

text \<open>
  What a \<^verbatim>\<open>Headers\<close> or \<^verbatim>\<open>Response\<close> constructor is given as headers: an object
  literal, whose properties are appended in order, or another \<^verbatim>\<open>Headers\<close> object,
  whose entries are appended as its iteration yields them.
\<close>

datatype headers_init = Literal header_list | FromHeaders header_list

definition fill_headers :: "header_list \<Rightarrow> headers_init \<Rightarrow> header_list" where
  "fill_headers hs init =
     foldl (\<lambda>acc h. headers_append acc (fst h) (snd h)) hs
       (case init of Literal ps \<Rightarrow> ps | FromHeaders other \<Rightarrow> headers_entries other)"

definition new_Headers :: "headers_init \<Rightarrow> header_list" where
  "new_Headers init = fill_headers [] init"

subsection \<open>Bodies, thrown values, requests and responses\<close>

text \<open>
  A body, once it belongs to a request or a response, is a stream of bytes (\<open>None\<close> is
  the \<^verbatim>\<open>null\<close> body). A constructor is handed either a string, for which it also
  knows a content type, or such a stream, which it takes over as it is. Strings are byte
  strings here, so that the bytes of a string body are the string.
\<close>

type_synonym bytes = string

datatype body_init = FromString string | FromStream bytes

text \<open>
  What a \<^verbatim>\<open>catch\<close> clause can be handed, told apart as far as line 88 looks at it:
  \<^item> \<^verbatim>\<open>null\<close> and \<^verbatim>\<open>undefined\<close>;
  \<^item> a primitive string, or another primitive (a number, a boolean, a bigint, a symbol);
  \<^item> an object whose \<^verbatim>\<open>message\<close> property is a string (\<open>Some\<close>), or is absent or
    another falsy value (\<open>None\<close>); an \<^verbatim>\<open>Error\<close> is such an object;
  \<^item> an object whose \<^verbatim>\<open>message\<close> is a truthy value that is not a string and that the
    template literal converts to the given text (a number, an array, an object with a
    \<^verbatim>\<open>toString\<close>);
  \<^item> an object on which reading \<^verbatim>\<open>message\<close> or converting it to a string throws the
    given value: a throwing getter, a \<^verbatim>\<open>Symbol\<close> as message (a \<^verbatim>\<open>TypeError\<close>), an object
    whose \<^verbatim>\<open>toString\<close> throws.
\<close>

datatype thrown =
    ThrownNull
  | ThrownUndefined
  | ThrownString string
  | ThrownPrimitive
  | ThrownObject "string option"
  | ThrownObjectConverting string
  | ThrownObjectThrowing thrown

text \<open>
  The inbound URL as \<^verbatim>\<open>new URL(request.url)\<close> (line 15) has parsed it: its path and
  its query, which is \<open>None\<close> when the URL has no question mark. The \<^verbatim>\<open>search\<close>
  getter of the URL standard is empty when the query is null or empty, and otherwise a
  question mark followed by the query.
\<close>

record url =
  pathname :: string
  query :: "string option"

definition search :: "url \<Rightarrow> string" where
  "search u = (case query u of None \<Rightarrow> [] | Some q \<Rightarrow> if q = [] then [] else ''?'' @ q)"

record request =
  req_method :: string
  req_url :: url
  req_headers :: header_list
  req_body :: "bytes option"

record response =
  status :: nat
  statusText :: string
  headers :: header_list
  body :: "bytes option"

record response_init =
  init_status :: nat
  init_statusText :: string
  init_headers :: headers_init

text \<open>
  The argument of \<^verbatim>\<open>fetch\<close> built at lines 58-67. An absent \<^verbatim>\<open>body\<close> property and a
  \<^verbatim>\<open>null\<close> one both mean a request without body: \<open>None\<close>.
\<close>

record fetch_options =
  opt_method :: string
  opt_headers :: header_list
  opt_redirect :: string
  opt_body :: "bytes option"

text \<open>
  The surroundings of one run of the handler: what \<^verbatim>\<open>fetch\<close> answers to a call (a
  thrown value or the upstream response), what \<^verbatim>\<open>new URL\<close> makes of a string (the
  parsed URL, or the \<^verbatim>\<open>TypeError\<close> it throws), the string
  \<^verbatim>\<open>new Date().toISOString()\<close> returns at line 42, and the message texts of the errors
  the platform itself throws (the three of the \<^verbatim>\<open>Response\<close> constructor, and the one of
  reading a property of \<^verbatim>\<open>null\<close> or \<^verbatim>\<open>undefined\<close>), which differ between runtimes.
\<close>

record runtime =
  fetch :: "string \<Rightarrow> fetch_options \<Rightarrow> thrown + response"
  new_URL :: "string \<Rightarrow> thrown + url"
  now_iso :: string
  status_range_message :: "nat \<Rightarrow> string"
  status_text_message :: "string \<Rightarrow> string"
  null_body_message :: string
  nullish_property_message :: string

subsection \<open>The Response constructor\<close>

definition null_body_status :: "nat \<Rightarrow> bool" where
  "null_body_status s = (s = 101 \<or> s = 103 \<or> s = 204 \<or> s = 205 \<or> s = 304)"

definition status_allowed :: "nat \<Rightarrow> bool" where
  "status_allowed s = ((200 \<le> s \<and> s \<le> 599) \<or> s = 101)"

definition body_bytes :: "body_init \<Rightarrow> bytes" where
  "body_bytes b = (case b of FromString s \<Rightarrow> s | FromStream bs \<Rightarrow> bs)"

definition with_content_type :: "body_init \<Rightarrow> header_list \<Rightarrow> header_list" where
  "with_content_type b hs =
     (case b of
        FromString _ \<Rightarrow>
          if headers_has hs ''Content-Type'' then hs
          else hs @ [(''Content-Type'', ''text/plain;charset=UTF-8'')]
      | FromStream _ \<Rightarrow> hs)"

text \<open>
  The reason-phrase production of HTTP, which a status text has to match: tabs, spaces,
  visible ASCII and the bytes from 0x80 on.
\<close>

definition reason_phrase_char :: "char \<Rightarrow> bool" where
  "reason_phrase_char c =
     (c = CHR 0x09 \<or> c = CHR 0x20 \<or> (CHR 0x21 \<le> c \<and> c \<le> CHR 0x7E) \<or> CHR 0x80 \<le> c)"

definition reason_phrase :: "string \<Rightarrow> bool" where
  "reason_phrase s = list_all reason_phrase_char s"

text \<open>
  \<^verbatim>\<open>new Response(body, init)\<close> as the Fetch standard initialises a response.
  \<^verbatim>\<open>init.status\<close> is an \<^verbatim>\<open>unsigned short\<close>: the number given is taken modulo 65536.
  Then, in this order: a \<^verbatim>\<open>RangeError\<close> for a status outside 200-599 (Deno also lets 101
  through), a \<^verbatim>\<open>TypeError\<close> for a status text that is no reason phrase, the headers
  filled from \<^verbatim>\<open>init.headers\<close>, a \<^verbatim>\<open>TypeError\<close> for a body together with a
  null-body status, and a default \<^verbatim>\<open>Content-Type\<close> for a string body when the headers
  have none.
\<close>

definition new_Response ::
  "runtime \<Rightarrow> body_init option \<Rightarrow> response_init \<Rightarrow> thrown + response" where
  "new_Response rt b init =
     (let s = init_status init mod 65536 in
      if \<not> status_allowed s
      then Inl (ThrownObject (Some (status_range_message rt s)))
      else if \<not> reason_phrase (init_statusText init)
      then Inl (ThrownObject (Some (status_text_message rt (init_statusText init))))
      else
        (let hs = fill_headers [] (init_headers init) in
         case b of
           None \<Rightarrow>
             Inr \<lparr>status = s, statusText = init_statusText init, headers = hs, body = None\<rparr>
         | Some bd \<Rightarrow>
             if null_body_status s
             then Inl (ThrownObject (Some (null_body_message rt)))
             else Inr \<lparr>status = s, statusText = init_statusText init,
                       headers = with_content_type bd hs, body = Some (body_bytes bd)\<rparr>))"

section \<open>The handlers\<close>

text \<open>
  A run of a handler: the response it resolves to or the value it throws to its caller,
  the calls of \<^verbatim>\<open>fetch\<close> it made, and what it wrote to the console, both in order.
  Writing to the console is taken not to fail.
\<close>

datatype console_entry = ConsoleLog string | ConsoleError string thrown

record run =
  outcome :: "thrown + response"
  calls :: "(string \<times> fetch_options) list"
  console :: "console_entry list"

definition landing_page :: string where
  "landing_page =
     [CHR 0x0A] @
     ''      <!DOCTYPE html>'' @ [CHR 0x0A] @
     ''      <html lang='' @ [CHR 0x22] @ ''en'' @ [CHR 0x22] @ ''>'' @ [CHR 0x0A] @
     ''      <head>'' @ [CHR 0x0A] @
     ''        <meta charset='' @ [CHR 0x22] @ ''UTF-8'' @ [CHR 0x22] @ ''>'' @ [CHR 0x0A] @
     ''        <title>Groq API Proxy</title>'' @ [CHR 0x0A] @
     ''      </head>'' @ [CHR 0x0A] @
     ''      <body>'' @ [CHR 0x0A] @
     ''        <h1>Groq API Proxy is Running!</h1>'' @ [CHR 0x0A] @
     ''        <p>This proxy is configured to forward requests to the Groq API.</p>'' @ [CHR 0x0A] @
     ''      </body>'' @ [CHR 0x0A] @
     ''      </html>'' @ [CHR 0x0A] @
     ''    ''"

text \<open>Lines 47-55: the loop that copies the inbound headers with \<^verbatim>\<open>headers.set\<close>.\<close>

definition copy_header :: "header_list \<Rightarrow> string \<times> string \<Rightarrow> header_list" where
  "copy_header hs kv =
     (if toLowerCase (fst kv) \<noteq> ''host'' then headers_set hs (fst kv) (snd kv) else hs)"

definition outbound_headers :: "header_list \<Rightarrow> header_list" where
  "outbound_headers inbound = foldl copy_header (new_Headers (Literal [])) (headers_entries inbound)"

text \<open>Lines 58-67: the options of the outbound call.\<close>

definition fetchOptions :: "request \<Rightarrow> fetch_options" where
  "fetchOptions req =
     \<lparr>opt_method = req_method req,
      opt_headers = outbound_headers (req_headers req),
      opt_redirect = ''follow'',
      opt_body = (if req_method req \<in> set [''GET'', ''HEAD''] then None else req_body req)\<rparr>"

text \<open>
  Line 88, the template literal around \<^verbatim>\<open>error.message || 'Unknown error'\<close>: reading a
  property of \<^verbatim>\<open>null\<close> or \<^verbatim>\<open>undefined\<close> throws a \<^verbatim>\<open>TypeError\<close>, a primitive has
  no such property, an absent or empty message is falsy, and a message that cannot be
  read or converted to a string throws.
\<close>

definition type_error :: "runtime \<Rightarrow> thrown" where
  "type_error rt = ThrownObject (Some (nullish_property_message rt))"

definition error_message :: "runtime \<Rightarrow> thrown \<Rightarrow> thrown + string" where
  "error_message rt e =
     (case e of
        ThrownNull \<Rightarrow> Inl (type_error rt)
      | ThrownUndefined \<Rightarrow> Inl (type_error rt)
      | ThrownString _ \<Rightarrow> Inr ''Unknown error''
      | ThrownPrimitive \<Rightarrow> Inr ''Unknown error''
      | ThrownObject None \<Rightarrow> Inr ''Unknown error''
      | ThrownObject (Some m) \<Rightarrow> Inr (if m = [] then ''Unknown error'' else m)
      | ThrownObjectConverting m \<Rightarrow> Inr m
      | ThrownObjectThrowing e' \<Rightarrow> Inl e')"

text \<open>The thrown values on which line 88 itself throws.\<close>

definition message_unreadable :: "thrown \<Rightarrow> bool" where
  "message_unreadable e =
     (case e of
        ThrownNull \<Rightarrow> True
      | ThrownUndefined \<Rightarrow> True
      | ThrownObjectThrowing _ \<Rightarrow> True
      | _ \<Rightarrow> False)"

text \<open>Lines 86-95: the \<^verbatim>\<open>catch\<close> block, run after the console output \<open>logged\<close>.\<close>

definition catch_block ::
  "runtime \<Rightarrow> string \<Rightarrow> (string \<times> fetch_options) list \<Rightarrow> console_entry list \<Rightarrow> thrown \<Rightarrow> run" where
  "catch_block rt targetUrl called logged error =
     \<lparr>outcome =
        (case error_message rt error of
           Inl e \<Rightarrow> Inl e
         | Inr m \<Rightarrow>
             new_Response rt (Some (FromString (''Proxy Error: '' @ m)))
               \<lparr>init_status = 500, init_statusText = [],
                init_headers = Literal [(''Content-Type'', ''text/plain''),
                                        (''Access-Control-Allow-Origin'', ''*'')]\<rparr>),
      calls = called,
      console = logged @ [ConsoleError (''[ERROR] Failed to fetch '' @ targetUrl @ '':'') error]\<rparr>"

text \<open>Lines 73-78: the upstream headers, copied and overlaid with the CORS headers.\<close>

definition responseHeaders :: "header_list \<Rightarrow> header_list" where
  "responseHeaders upstream =
     headers_set
       (headers_set
          (headers_set (new_Headers (FromHeaders upstream)) ''Access-Control-Allow-Origin'' ''*'')
          ''Access-Control-Allow-Methods'' ''GET, POST, PUT, DELETE, OPTIONS'')
       ''Access-Control-Allow-Headers'' ''*''"

text \<open>Line 39: the target of the outbound call.\<close>

definition targetUrl :: "config \<Rightarrow> request \<Rightarrow> string" where
  "targetUrl cfg req = groqApiEndpoint cfg @ pathname (req_url req) @ search (req_url req)"

text \<open>Lines 41-43: the request line, written when \<^verbatim>\<open>logRequests\<close> is set.\<close>

definition request_line :: "config \<Rightarrow> runtime \<Rightarrow> request \<Rightarrow> console_entry" where
  "request_line cfg rt req =
     ConsoleLog (''['' @ now_iso rt @ ''] '' @ req_method req @ '' '' @ pathname (req_url req)
                 @ '' -> '' @ targetUrl cfg req)"

text \<open>
  Lines 45-85: the \<^verbatim>\<open>try\<close> block. It ends with the response it returns, or with the
  value thrown inside it, by \<^verbatim>\<open>fetch\<close> or by the \<^verbatim>\<open>Response\<close> constructor.
\<close>

definition try_block :: "config \<Rightarrow> runtime \<Rightarrow> request \<Rightarrow> thrown + response" where
  "try_block cfg rt req =
     (case fetch rt (targetUrl cfg req) (fetchOptions req) of
        Inl error \<Rightarrow> Inl error
      | Inr upstream \<Rightarrow>
          new_Response rt (map_option FromStream (body upstream))
            \<lparr>init_status = status upstream, init_statusText = statusText upstream,
             init_headers = FromHeaders (responseHeaders (headers upstream))\<rparr>)"

definition handleRequest :: "config \<Rightarrow> runtime \<Rightarrow> request \<Rightarrow> run" where
  "handleRequest cfg rt req =
     (if pathname (req_url req) = ''/'' \<or> pathname (req_url req) = ''/index.html''
      then \<lparr>outcome =
              new_Response rt (Some (FromString landing_page))
                \<lparr>init_status = 200, init_statusText = [],
                 init_headers = Literal [(''Content-Type'', ''text/html; charset=utf-8'')]\<rparr>,
            calls = [], console = []\<rparr>
      else
        (let logged = (if logRequests cfg then [request_line cfg rt req] else []);
             called = [(targetUrl cfg req, fetchOptions req)]
         in case try_block cfg rt req of
              Inl error \<Rightarrow> catch_block rt (targetUrl cfg req) called logged error
            | Inr r \<Rightarrow> \<lparr>outcome = Inr r, calls = called, console = logged\<rparr>))"

definition handleOptions :: "runtime \<Rightarrow> 'request \<Rightarrow> thrown + response" where
  "handleOptions rt unused_request =
     new_Response rt None
       \<lparr>init_status = 204, init_statusText = [],
        init_headers = Literal [(''Access-Control-Allow-Origin'', ''*''),
                                (''Access-Control-Allow-Methods'', ''GET, POST, PUT, DELETE, OPTIONS''),
                                (''Access-Control-Allow-Headers'', ''*''),
                                (''Access-Control-Max-Age'', ''86400'')]\<rparr>"

definition mainHandler :: "config \<Rightarrow> runtime \<Rightarrow> request \<Rightarrow> run" where
  "mainHandler cfg rt req =
     (if req_method req = ''OPTIONS''
      then \<lparr>outcome = handleOptions rt req, calls = [], console = []\<rparr>
      else handleRequest cfg rt req)"

text \<open>
  \<open>handleRequest\<close> above is the function from line 16 on, and \<open>request\<close> is the inbound
  request together with the URL that line 15 has parsed from it. Line 15 itself,
  \<^verbatim>\<open>new URL(request.url)\<close>, stands before the \<^verbatim>\<open>try\<close> block: what it throws, the
  handler throws. The inbound request as the server hands it over carries its URL as a
  string.
\<close>

record inbound =
  in_method :: string
  in_url :: string
  in_headers :: header_list
  in_body :: "bytes option"

definition received :: "inbound \<Rightarrow> url \<Rightarrow> request" where
  "received inb u =
     \<lparr>req_method = in_method inb, req_url = u, req_headers = in_headers inb,
      req_body = in_body inb\<rparr>"

definition handleRequest_inbound :: "config \<Rightarrow> runtime \<Rightarrow> inbound \<Rightarrow> run" where
  "handleRequest_inbound cfg rt inb =
     (case new_URL rt (in_url inb) of
        Inl error \<Rightarrow> \<lparr>outcome = Inl error, calls = [], console = []\<rparr>
      | Inr u \<Rightarrow> handleRequest cfg rt (received inb u))"

definition mainHandler_inbound :: "config \<Rightarrow> runtime \<Rightarrow> inbound \<Rightarrow> run" where
  "mainHandler_inbound cfg rt inb =
     (if in_method inb = ''OPTIONS''
      then \<lparr>outcome = handleOptions rt inb, calls = [], console = []\<rparr>
      else handleRequest_inbound cfg rt inb)"

text \<open>
  A request is forwarded when neither local branch takes it: its method is not
  \<^verbatim>\<open>OPTIONS\<close> (line 114) and its path is not one of the two landing paths (line 19).
\<close>

definition forwarded :: "request \<Rightarrow> bool" where
  "forwarded req =
     (req_method req \<noteq> ''OPTIONS'' \<and> pathname (req_url req) \<noteq> ''/'' \<and>
      pathname (req_url req) \<noteq> ''/index.html'')"

section \<open>Sample inputs\<close>

text \<open>
  Concrete requests and runtimes on which the statements below are instantiated. A
  runtime is fixed by what its \<^verbatim>\<open>fetch\<close> answers; its \<^verbatim>\<open>new URL\<close> parses the one URL
  of the samples and refuses every other string.
\<close>

definition runtime_answering :: "thrown + response \<Rightarrow> runtime" where
  "runtime_answering answer =
     \<lparr>fetch = (\<lambda>target options. answer),
      new_URL = (\<lambda>href.
        if href = ''http://localhost:8080/openai/v1/chat/completions?stream=1''
        then Inr \<lparr>pathname = ''/openai/v1/chat/completions'', query = Some ''stream=1''\<rparr>
        else Inl (ThrownObject (Some ''Invalid URL''))),
      now_iso = ''2025-03-01T09:30:00.000Z'',
      status_range_message = (\<lambda>s. ''The status provided is outside the range [200, 599]''),
      status_text_message = (\<lambda>t. ''Invalid status text''),
      null_body_message = ''Response with null body status cannot have body'',
      nullish_property_message = ''Cannot read properties of null''\<rparr>"

definition rate_limited :: response where
  "rate_limited =
     \<lparr>status = 429, statusText = ''Too Many Requests'',
      headers = [(''Content-Type'', ''application/json''),
                 (''Access-Control-Allow-Origin'', ''https://console.groq.com'')],
      body = Some ''{}''\<rparr>"


definition chat_request :: request where
  "chat_request =
     \<lparr>req_method = ''POST'',
      req_url = \<lparr>pathname = ''/openai/v1/chat/completions'', query = Some ''stream=1''\<rparr>,
      req_headers = [(''Host'', ''localhost:8080''), (''Content-Type'', ''application/json'')],
      req_body = Some ''{}''\<rparr>"

definition chat_inbound :: inbound where
  "chat_inbound =
     \<lparr>in_method = ''POST'',
      in_url = ''http://localhost:8080/openai/v1/chat/completions?stream=1'',
      in_headers = [(''Host'', ''localhost:8080''), (''Content-Type'', ''application/json'')],
      in_body = Some ''{}''\<rparr>"

definition models_request :: request where
  "models_request =
     \<lparr>req_method = ''GET'',
      req_url = \<lparr>pathname = ''/openai/v1/models'', query = None\<rparr>,
      req_headers = [(''Host'', ''localhost:8080'')],
      req_body = Some ''ignored''\<rparr>"

definition preflight_request :: request where
  "preflight_request = chat_request\<lparr>req_method := ''OPTIONS''\<rparr>"

definition index_request :: request where
  "index_request = models_request\<lparr>req_url := \<lparr>pathname = ''/index.html'', query = None\<rparr>\<rparr>"

definition capital_index_request :: request where
  "capital_index_request =
     models_request\<lparr>req_url := \<lparr>pathname = ''/Index.html'', query = None\<rparr>\<rparr>"

definition cookie_request :: request where
  "cookie_request =
     chat_request\<lparr>req_headers := [(''Set-Cookie'', ''a=1''), (''Set-Cookie'', ''b=2'')]\<rparr>"

section \<open>Facts about the constructors\<close>

lemma preflight_headers:
  "fill_headers []
     (Literal [(''Access-Control-Allow-Origin'', ''*''),
               (''Access-Control-Allow-Methods'', ''GET, POST, PUT, DELETE, OPTIONS''),
               (''Access-Control-Allow-Headers'', ''*''),
               (''Access-Control-Max-Age'', ''86400'')]) =
   [(''Access-Control-Allow-Origin'', ''*''),
    (''Access-Control-Allow-Methods'', ''GET, POST, PUT, DELETE, OPTIONS''),
    (''Access-Control-Allow-Headers'', ''*''),
    (''Access-Control-Max-Age'', ''86400'')]"
  by code_simp

lemma landing_headers_filled:
  "fill_headers [] (Literal [(''Content-Type'', ''text/html; charset=utf-8'')]) =
   [(''Content-Type'', ''text/html; charset=utf-8'')]"
  by code_simp

lemma landing_headers:
  "with_content_type (FromString s)
     (fill_headers [] (Literal [(''Content-Type'', ''text/html; charset=utf-8'')])) =
   [(''Content-Type'', ''text/html; charset=utf-8'')]"
  by (simp add: landing_headers_filled with_content_type_def headers_has_def name_matches_def)

lemma error_headers_filled:
  "fill_headers [] (Literal [(''Content-Type'', ''text/plain''),
                             (''Access-Control-Allow-Origin'', ''*'')]) =
   [(''Content-Type'', ''text/plain''), (''Access-Control-Allow-Origin'', ''*'')]"
  by code_simp

lemma error_headers:
  "with_content_type (FromString s)
     (fill_headers [] (Literal [(''Content-Type'', ''text/plain''),
                                (''Access-Control-Allow-Origin'', ''*'')])) =
   [(''Content-Type'', ''text/plain''), (''Access-Control-Allow-Origin'', ''*'')]"
  by (simp add: error_headers_filled with_content_type_def headers_has_def name_matches_def)

lemma status_allowed_literals:
  "status_allowed 200" "status_allowed 204" "status_allowed 500"
  "\<not> null_body_status 200" "\<not> null_body_status 500"
  by (simp_all add: status_allowed_def null_body_status_def)

lemma reason_phrase_empty: "reason_phrase []"
  by (simp add: reason_phrase_def)

lemma preflight_response:
  "new_Response rt None
     \<lparr>init_status = 204, init_statusText = [],
      init_headers = Literal [(''Access-Control-Allow-Origin'', ''*''),
                              (''Access-Control-Allow-Methods'', ''GET, POST, PUT, DELETE, OPTIONS''),
                              (''Access-Control-Allow-Headers'', ''*''),
                              (''Access-Control-Max-Age'', ''86400'')]\<rparr> =
   Inr \<lparr>status = 204, statusText = [],
        headers = [(''Access-Control-Allow-Origin'', ''*''),
                   (''Access-Control-Allow-Methods'', ''GET, POST, PUT, DELETE, OPTIONS''),
                   (''Access-Control-Allow-Headers'', ''*''),
                   (''Access-Control-Max-Age'', ''86400'')],
        body = None\<rparr>"
  by (simp add: new_Response_def Let_def status_allowed_literals reason_phrase_empty
      preflight_headers)

lemma landing_response:
  "new_Response rt (Some (FromString landing_page))
     \<lparr>init_status = 200, init_statusText = [],
      init_headers = Literal [(''Content-Type'', ''text/html; charset=utf-8'')]\<rparr> =
   Inr \<lparr>status = 200, statusText = [],
        headers = [(''Content-Type'', ''text/html; charset=utf-8'')],
        body = Some landing_page\<rparr>"
  by (simp add: new_Response_def Let_def status_allowed_literals reason_phrase_empty
      landing_headers body_bytes_def)

lemma error_response:
  "new_Response rt (Some (FromString s))
     \<lparr>init_status = 500, init_statusText = [],
      init_headers = Literal [(''Content-Type'', ''text/plain''),
                              (''Access-Control-Allow-Origin'', ''*'')]\<rparr> =
   Inr \<lparr>status = 500, statusText = [],
        headers = [(''Content-Type'', ''text/plain''), (''Access-Control-Allow-Origin'', ''*'')],
        body = Some s\<rparr>"
  by (simp add: new_Response_def Let_def status_allowed_literals reason_phrase_empty
      error_headers body_bytes_def)

lemma new_Response_throws_object:
  "new_Response rt b init = Inl e \<Longrightarrow> \<exists>msg. e = ThrownObject (Some msg)"
  by (auto simp add: new_Response_def Let_def split: if_splits option.splits)

lemma new_Response_stream:
  assumes "200 \<le> s" and "s \<le> 599" and "reason_phrase t"
    and "b = None \<or> \<not> null_body_status s"
  shows "new_Response rt (map_option FromStream b)
           \<lparr>init_status = s, init_statusText = t, init_headers = FromHeaders hs\<rparr> =
         Inr \<lparr>status = s, statusText = t, headers = fill_headers [] (FromHeaders hs), body = b\<rparr>"
  using assms
  by (cases b)
     (simp_all add: new_Response_def Let_def status_allowed_def with_content_type_def
        body_bytes_def)

lemma new_Response_status_refused:
  assumes "599 < s" and "s < 65536"
  shows "new_Response rt b \<lparr>init_status = s, init_statusText = t, init_headers = hs\<rparr> =
         Inl (ThrownObject (Some (status_range_message rt s)))"
  using assms by (simp add: new_Response_def Let_def status_allowed_def)

section \<open>Facts about the handlers\<close>

lemma forwarded_handler:
  "forwarded req \<Longrightarrow> mainHandler cfg rt req = handleRequest cfg rt req"
  by (simp add: forwarded_def mainHandler_def)

lemma calls_catch_block: "calls (catch_block rt t called logged e) = called"
  by (simp add: catch_block_def)

lemma console_catch_block:
  "console (catch_block rt t called logged e) =
     logged @ [ConsoleError (''[ERROR] Failed to fetch '' @ t @ '':'') e]"
  by (simp add: catch_block_def)

lemma forwarded_calls:
  "forwarded req \<Longrightarrow>
     calls (mainHandler cfg rt req) = [(targetUrl cfg req, fetchOptions req)]"
  by (simp add: forwarded_handler, simp add: forwarded_def handleRequest_def Let_def calls_catch_block
      split: sum.split)

lemma forwarded_run:
  "forwarded req \<Longrightarrow>
     mainHandler cfg rt req =
       (case try_block cfg rt req of
          Inl error \<Rightarrow>
            catch_block rt (targetUrl cfg req) [(targetUrl cfg req, fetchOptions req)]
              (if logRequests cfg then [request_line cfg rt req] else []) error
        | Inr r \<Rightarrow>
            \<lparr>outcome = Inr r, calls = [(targetUrl cfg req, fetchOptions req)],
             console = (if logRequests cfg then [request_line cfg rt req] else [])\<rparr>)"
  by (simp add: forwarded_def mainHandler_def handleRequest_def Let_def)

lemma forwarded_samples:
  "forwarded chat_request" "forwarded models_request" "forwarded capital_index_request"
  "forwarded cookie_request"
  by (simp_all add: forwarded_def chat_request_def models_request_def
      capital_index_request_def cookie_request_def)

lemma fetch_runtime_answering: "fetch (runtime_answering a) t opts = a"
  by (simp add: runtime_answering_def)

lemma try_block_fetch_failed:
  "fetch rt (targetUrl cfg req) (fetchOptions req) = Inl e \<Longrightarrow> try_block cfg rt req = Inl e"
  by (simp add: try_block_def)

lemma catch_block_outcome:
  "outcome (catch_block rt t called logged (ThrownObject m)) =
     Inr \<lparr>status = 500, statusText = [],
          headers = [(''Content-Type'', ''text/plain''), (''Access-Control-Allow-Origin'', ''*'')],
          body = Some (''Proxy Error: '' @
                       (case m of
                          None \<Rightarrow> ''Unknown error''
                        | Some msg \<Rightarrow> if msg = [] then ''Unknown error'' else msg))\<rparr>"
  by (simp add: catch_block_def error_message_def error_response split: option.split)

lemma catch_block_primitive:
  "outcome (catch_block rt t called logged (ThrownString s)) =
     Inr \<lparr>status = 500, statusText = [],
          headers = [(''Content-Type'', ''text/plain''), (''Access-Control-Allow-Origin'', ''*'')],
          body = Some ''Proxy Error: Unknown error''\<rparr>"
  "outcome (catch_block rt t called logged ThrownPrimitive) =
     Inr \<lparr>status = 500, statusText = [],
          headers = [(''Content-Type'', ''text/plain''), (''Access-Control-Allow-Origin'', ''*'')],
          body = Some ''Proxy Error: Unknown error''\<rparr>"
  by (simp_all add: catch_block_def error_message_def error_response)

lemma catch_block_converting:
  "outcome (catch_block rt t called logged (ThrownObjectConverting m)) =
     Inr \<lparr>status = 500, statusText = [],
          headers = [(''Content-Type'', ''text/plain''), (''Access-Control-Allow-Origin'', ''*'')],
          body = Some (''Proxy Error: '' @ m)\<rparr>"
  by (simp add: catch_block_def error_message_def error_response)

lemma catch_block_throws:
  "outcome (catch_block rt t called logged ThrownNull) = Inl (type_error rt)"
  "outcome (catch_block rt t called logged ThrownUndefined) = Inl (type_error rt)"
  "outcome (catch_block rt t called logged (ThrownObjectThrowing e)) = Inl e"
  by (simp_all add: catch_block_def error_message_def)

lemma landing_run:
  assumes "req_method req \<noteq> ''OPTIONS''"
    and "pathname (req_url req) = ''/'' \<or> pathname (req_url req) = ''/index.html''"
  shows "mainHandler cfg rt req =
     \<lparr>outcome =
        Inr \<lparr>status = 200, statusText = [],
             headers = [(''Content-Type'', ''text/html; charset=utf-8'')],
             body = Some landing_page\<rparr>,
      calls = [], console = []\<rparr>"
proof -
  from assms(1) have "mainHandler cfg rt req = handleRequest cfg rt req"
    by (simp add: mainHandler_def)
  also from assms(2) have "\<dots> =
     \<lparr>outcome =
        new_Response rt (Some (FromString landing_page))
          \<lparr>init_status = 200, init_statusText = [],
           init_headers = Literal [(''Content-Type'', ''text/html; charset=utf-8'')]\<rparr>,
      calls = [], console = []\<rparr>"
    unfolding handleRequest_def by (rule if_P)
  finally show ?thesis
    by (simp only: landing_response)
qed

lemma local_console:
  assumes "\<not> forwarded req"
  shows "console (mainHandler cfg rt req) = []"
proof (cases "req_method req = ''OPTIONS''")
  case True
  then show ?thesis
    by (simp add: mainHandler_def)
next
  case False
  with assms have "pathname (req_url req) = ''/'' \<or> pathname (req_url req) = ''/index.html''"
    by (auto simp add: forwarded_def)
  with False show ?thesis
    by (simp add: landing_run)
qed

text \<open>
  Once line 15 has parsed the URL, the handler goes on as \<open>mainHandler\<close> does on the
  request with that URL; a preflight request never reaches line 15.
\<close>

lemma mainHandler_inbound_parsed:
  "new_URL rt (in_url inb) = Inr u \<Longrightarrow>
     mainHandler_inbound cfg rt inb = mainHandler cfg rt (received inb u)"
  by (simp add: mainHandler_inbound_def handleRequest_inbound_def mainHandler_def received_def
      handleOptions_def)

lemma mainHandler_inbound_options:
  "in_method inb = ''OPTIONS'' \<Longrightarrow>
     mainHandler_inbound cfg rt inb =
       \<lparr>outcome = handleOptions rt inb, calls = [], console = []\<rparr>"
  by (simp add: mainHandler_inbound_def)

lemma mainHandler_inbound_unparsed:
  "in_method inb \<noteq> ''OPTIONS'' \<Longrightarrow> new_URL rt (in_url inb) = Inl e \<Longrightarrow>
     mainHandler_inbound cfg rt inb = \<lparr>outcome = Inl e, calls = [], console = []\<rparr>"
  by (simp add: mainHandler_inbound_def handleRequest_inbound_def)

section \<open>Facts about header lists\<close>

text \<open>
  What \<^verbatim>\<open>get\<close> and \<^verbatim>\<open>has\<close> show of a header list is fixed by the values it holds under
  each name, so the operations are described by their effect on \<open>header_values\<close>:
  iteration joins the values of a name (and keeps those of \<^verbatim>\<open>set-cookie\<close> apart),
  \<^verbatim>\<open>append\<close> adds a value, \<^verbatim>\<open>set\<close> leaves one.
\<close>

lemma lower_char_idem: "lower_char (lower_char c) = lower_char c"
  by (simp add: lower_char_def less_eq_char_def)

lemma toLowerCase_idem: "toLowerCase (toLowerCase s) = toLowerCase s"
  by (simp add: toLowerCase_def lower_char_idem)

lemma name_matches_lower: "name_matches (toLowerCase n) = name_matches n"
  by (rule ext) (simp add: name_matches_def toLowerCase_idem)

lemma header_values_lower: "header_values hs (toLowerCase n) = header_values hs n"
  by (simp add: header_values_def name_matches_lower)

lemma lower_literals:
  "toLowerCase ''Host'' = ''host''"
  "toLowerCase ''set-cookie'' = ''set-cookie''"
  "toLowerCase ''Access-Control-Allow-Origin'' = ''access-control-allow-origin''"
  "toLowerCase ''Access-Control-Allow-Methods'' = ''access-control-allow-methods''"
  "toLowerCase ''Access-Control-Allow-Headers'' = ''access-control-allow-headers''"
  by code_simp+

lemma headers_has_values: "headers_has hs n = (header_values hs n \<noteq> [])"
  by (simp add: headers_has_def header_values_def)

lemma headers_get_values:
  "headers_get hs n =
     (if header_values hs n = [] then None else Some (join_values (header_values hs n)))"
  by (simp add: headers_get_def headers_has_values)

lemma header_values_Nil: "header_values [] n = []"
  by (simp add: header_values_def)

lemma header_values_Cons:
  "header_values (h # hs) n =
     (if toLowerCase (fst h) = toLowerCase n then snd h # header_values hs n
      else header_values hs n)"
  by (simp add: header_values_def name_matches_def)

lemma header_values_append_list:
  "header_values (xs @ ys) n = header_values xs n @ header_values ys n"
  by (simp add: header_values_def)

lemma header_values_same_case:
  "toLowerCase k = toLowerCase n \<Longrightarrow> header_values hs k = header_values hs n"
  by (metis header_values_lower)

lemma header_values_single:
  "header_values [(m, x)] n = (if toLowerCase m = toLowerCase n then [x] else [])"
  by (simp add: header_values_Cons header_values_Nil)

lemma header_values_same_name:
  "header_values (map (\<lambda>v. (m, v)) vs) n = (if toLowerCase m = toLowerCase n then vs else [])"
  by (induction vs) (simp_all add: header_values_Cons header_values_Nil)

lemma header_values_entries_of:
  "header_values (entries_of hs m) n =
     (if toLowerCase m = toLowerCase n
      then (if m = ''set-cookie'' then header_values hs m else [join_values (header_values hs m)])
      else [])"
  by (simp add: entries_of_def header_values_single header_values_same_name)

lemma header_values_concat:
  "distinct ns \<Longrightarrow> \<forall>m \<in> set ns. toLowerCase m = m \<Longrightarrow>
     header_values (concat (map (entries_of hs) ns)) n =
       (if toLowerCase n \<in> set ns then header_values (entries_of hs (toLowerCase n)) n else [])"
proof (induction ns)
  case Nil
  then show ?case by (simp add: header_values_def)
next
  case (Cons m ns)
  then have m: "toLowerCase m = m" and rest: "\<forall>m \<in> set ns. toLowerCase m = m"
    and fresh: "m \<notin> set ns" and d: "distinct ns"
    by simp_all
  show ?case
  proof (cases "toLowerCase n = m")
    case True
    with fresh have "toLowerCase n \<notin> set ns" by simp
    with Cons.IH [OF d rest] True show ?thesis
      by (simp add: header_values_append_list)
  next
    case False
    with m have "toLowerCase m \<noteq> toLowerCase n" by simp
    with False Cons.IH [OF d rest] show ?thesis
      by (auto simp add: header_values_append_list header_values_entries_of)
  qed
qed

lemma sorted_names_props:
  "distinct (sorted_names hs)" "\<forall>m \<in> set (sorted_names hs). toLowerCase m = m"
  by (auto simp add: sorted_names_def toLowerCase_idem)

lemma sorted_names_has: "(toLowerCase n \<in> set (sorted_names hs)) = headers_has hs n"
proof -
  have "(x \<in> f ` S) = (\<exists>h \<in> S. f h = x)" for x :: string and f and S :: "(string \<times> string) set"
    by blast
  then have "(toLowerCase n \<in> set (sorted_names hs)) =
          (\<exists>h \<in> set hs. toLowerCase (fst h) = toLowerCase n)"
    by (simp add: sorted_names_def)
  also have "\<dots> = headers_has hs n"
    by (simp add: headers_has_def filter_empty_conv name_matches_def)
  finally show ?thesis .
qed

lemma header_values_entries:
  "header_values (headers_entries hs) n =
     (if headers_has hs n
      then (if toLowerCase n = ''set-cookie'' then header_values hs n
            else [join_values (header_values hs n)])
      else [])"
proof -
  have "header_values (headers_entries hs) n =
      (if headers_has hs n then header_values (entries_of hs (toLowerCase n)) n else [])"
    unfolding headers_entries_def
    by (simp add: header_values_concat sorted_names_props sorted_names_has)
  also have "header_values (entries_of hs (toLowerCase n)) n =
      (if toLowerCase n = ''set-cookie'' then header_values hs (toLowerCase n)
       else [join_values (header_values hs (toLowerCase n))])"
    by (simp only: header_values_entries_of toLowerCase_idem refl if_True)
  finally show ?thesis
    by (simp only: header_values_lower)
qed

lemma headers_get_entries: "headers_get (headers_entries hs) n = headers_get hs n"
  by (simp add: headers_get_values header_values_entries headers_has_values)

lemma headers_has_entries: "headers_has (headers_entries hs) n = headers_has hs n"
  by (simp add: headers_has_values header_values_entries)






lemma header_values_others_removed:
  "header_values (filter (\<lambda>h'. \<not> name_matches k h') hs) n =
     (if toLowerCase k = toLowerCase n then [] else header_values hs n)"
  by (induction hs) (auto simp add: header_values_Cons header_values_Nil name_matches_def)

lemma header_values_set_first:
  "header_values (set_first k v hs) n =
     (if toLowerCase k = toLowerCase n
      then (if header_values hs n = [] then [] else [v])
      else header_values hs n)"
proof (induction hs)
  case Nil
  then show ?case by (simp add: header_values_Nil)
next
  case (Cons h hs)
  show ?case
  proof (cases "name_matches k h")
    case True
    then have "toLowerCase (fst h) = toLowerCase k"
      by (simp add: name_matches_def)
    with True show ?thesis
      by (auto simp add: header_values_Cons header_values_others_removed)
  next
    case False
    with Cons show ?thesis
      by (auto simp add: header_values_Cons name_matches_def)
  qed
qed

lemma header_values_headers_set:
  "header_values (headers_set hs k v) n =
     (if toLowerCase k = toLowerCase n then [normalize_value v] else header_values hs n)"
proof (cases "headers_has hs k")
  case True
  then have "toLowerCase k = toLowerCase n \<Longrightarrow> header_values hs n \<noteq> []"
    using header_values_same_case [of k n hs] by (simp add: headers_has_values)
  with True show ?thesis
    by (auto simp add: headers_set_def header_values_set_first)
next
  case False
  then have "toLowerCase k = toLowerCase n \<Longrightarrow> header_values hs n = []"
    using header_values_same_case [of k n hs] by (simp add: headers_has_values)
  with False show ?thesis
    by (auto simp add: headers_set_def header_values_append_list header_values_single)
qed



section \<open>The local branches\<close>

text \<open>
  C7. Every request with method \<^verbatim>\<open>OPTIONS\<close>, whatever its path, headers and body, is
  answered with status 204, no body and exactly the four preflight headers
  \<^verbatim>\<open>Access-Control-Allow-Origin: *\<close>,
  \<^verbatim>\<open>Access-Control-Allow-Methods: GET, POST, PUT, DELETE, OPTIONS\<close>,
  \<^verbatim>\<open>Access-Control-Allow-Headers: *\<close> and \<^verbatim>\<open>Access-Control-Max-Age: 86400\<close>; no
  outbound call is made (and nothing is written to the console).
\<close>

theorem options_preflight:
  assumes "req_method req = ''OPTIONS''"
  shows "mainHandler cfg rt req =
     \<lparr>outcome =
        Inr \<lparr>status = 204, statusText = [],
             headers = [(''Access-Control-Allow-Origin'', ''*''),
                        (''Access-Control-Allow-Methods'', ''GET, POST, PUT, DELETE, OPTIONS''),
                        (''Access-Control-Allow-Headers'', ''*''),
                        (''Access-Control-Max-Age'', ''86400'')],
             body = None\<rparr>,
      calls = [], console = []\<rparr>"
  using assms
  by (simp add: mainHandler_def handleOptions_def preflight_response)

theorem options_preflight_witness:
  "req_method preflight_request = ''OPTIONS'' \<and>
   mainHandler CONFIG (runtime_answering (Inr rate_limited)) preflight_request =
     \<lparr>outcome =
        Inr \<lparr>status = 204, statusText = [],
             headers = [(''Access-Control-Allow-Origin'', ''*''),
                        (''Access-Control-Allow-Methods'', ''GET, POST, PUT, DELETE, OPTIONS''),
                        (''Access-Control-Allow-Headers'', ''*''),
                        (''Access-Control-Max-Age'', ''86400'')],
             body = None\<rparr>,
      calls = [], console = []\<rparr>"
proof -
  have m: "req_method preflight_request = ''OPTIONS''"
    by (simp add: preflight_request_def)
  from m options_preflight [OF m] show ?thesis
    by blast
qed

text \<open>
  C8. Every request whose path is \<^verbatim>\<open>/\<close> or \<^verbatim>\<open>/index.html\<close> and whose method is
  not \<^verbatim>\<open>OPTIONS\<close> is answered with status 200, the single header
  \<^verbatim>\<open>Content-Type: text/html; charset=utf-8\<close> and the fixed page of lines 20-32 as
  body; no outbound call is made.
\<close>

theorem landing_page_served:
  assumes "req_method req \<noteq> ''OPTIONS''"
    and "pathname (req_url req) = ''/'' \<or> pathname (req_url req) = ''/index.html''"
  shows "mainHandler cfg rt req =
     \<lparr>outcome =
        Inr \<lparr>status = 200, statusText = [],
             headers = [(''Content-Type'', ''text/html; charset=utf-8'')],
             body = Some landing_page\<rparr>,
      calls = [], console = []\<rparr>"
  using assms by (rule landing_run)

theorem landing_page_served_witness:
  "req_method index_request \<noteq> ''OPTIONS'' \<and>
   (pathname (req_url index_request) = ''/'' \<or>
    pathname (req_url index_request) = ''/index.html'') \<and>
   mainHandler CONFIG (runtime_answering (Inr rate_limited)) index_request =
     \<lparr>outcome =
        Inr \<lparr>status = 200, statusText = [],
             headers = [(''Content-Type'', ''text/html; charset=utf-8'')],
             body = Some landing_page\<rparr>,
      calls = [], console = []\<rparr>"
proof -
  have m: "req_method index_request \<noteq> ''OPTIONS''"
    by (simp add: index_request_def models_request_def)
  have p: "pathname (req_url index_request) = ''/'' \<or>
           pathname (req_url index_request) = ''/index.html''"
    by (simp add: index_request_def)
  from m p landing_page_served [OF m p] show ?thesis
    by blast
qed



section \<open>The outbound call\<close>

text \<open>
  C1. For every request whose method is not \<^verbatim>\<open>OPTIONS\<close> and whose path is neither
  \<^verbatim>\<open>/\<close> nor \<^verbatim>\<open>/index.html\<close>, the handler calls \<^verbatim>\<open>fetch\<close> exactly once, and the
  target of that call is the upstream base URL followed by the inbound path, followed
  by a question mark and the query when the query is not empty, and by nothing when it
  is empty (or absent).
\<close>

theorem outbound_target:
  assumes "req_method req \<noteq> ''OPTIONS''"
    and "pathname (req_url req) \<noteq> ''/''"
    and "pathname (req_url req) \<noteq> ''/index.html''"
  shows "map fst (calls (mainHandler cfg rt req)) =
     [groqApiEndpoint cfg @ pathname (req_url req) @
      (case query (req_url req) of
         None \<Rightarrow> []
       | Some q \<Rightarrow> if q = [] then [] else ''?'' @ q)]"
proof -
  from assms have "forwarded req"
    by (simp add: forwarded_def)
  then have "calls (mainHandler cfg rt req) = [(targetUrl cfg req, fetchOptions req)]"
    by (rule forwarded_calls)
  then show ?thesis
    by (simp add: targetUrl_def search_def)
qed

theorem outbound_target_witness:
  "req_method chat_request \<noteq> ''OPTIONS'' \<and>
   pathname (req_url chat_request) \<noteq> ''/'' \<and>
   pathname (req_url chat_request) \<noteq> ''/index.html'' \<and>
   map fst (calls (mainHandler CONFIG (runtime_answering (Inr rate_limited)) chat_request)) =
     [''https://api.groq.com/openai/v1/chat/completions?stream=1'']"
proof -
  have m: "req_method chat_request \<noteq> ''OPTIONS''"
    and p: "pathname (req_url chat_request) \<noteq> ''/''"
    and q: "pathname (req_url chat_request) \<noteq> ''/index.html''"
    by (simp_all add: chat_request_def)
  from outbound_target [OF m p q, of CONFIG "runtime_answering (Inr rate_limited)"]
  have "map fst (calls (mainHandler CONFIG (runtime_answering (Inr rate_limited)) chat_request)) =
     [''https://api.groq.com/openai/v1/chat/completions?stream=1'']"
    by (simp add: chat_request_def CONFIG_def)
  with m p q show ?thesis
    by blast
qed

text \<open>
  C6. For every forwarded request whose method is \<^verbatim>\<open>GET\<close> or \<^verbatim>\<open>HEAD\<close> the outbound
  call carries no body, whatever body the inbound request had; for every other method
  the outbound body is the inbound body.
\<close>

theorem outbound_body:
  assumes "forwarded req"
  shows "map (\<lambda>call. opt_body (snd call)) (calls (mainHandler cfg rt req)) =
     [if req_method req = ''GET'' \<or> req_method req = ''HEAD'' then None else req_body req]"
  using forwarded_calls [OF assms, of cfg rt]
  by (simp add: fetchOptions_def)

theorem outbound_body_witness:
  "forwarded models_request \<and> req_body models_request = Some ''ignored'' \<and>
   map (\<lambda>call. opt_body (snd call))
     (calls (mainHandler CONFIG (runtime_answering (Inr rate_limited)) models_request)) = [None] \<and>
   forwarded chat_request \<and>
   map (\<lambda>call. opt_body (snd call))
     (calls (mainHandler CONFIG (runtime_answering (Inr rate_limited)) chat_request)) = [Some ''{}'']"
proof -
  have g: "forwarded models_request" and c: "forwarded chat_request"
    by (rule forwarded_samples)+
  from outbound_body [OF g, of CONFIG "runtime_answering (Inr rate_limited)"]
  have 1: "map (\<lambda>call. opt_body (snd call))
     (calls (mainHandler CONFIG (runtime_answering (Inr rate_limited)) models_request)) = [None]"
    by (simp add: models_request_def)
  from outbound_body [OF c, of CONFIG "runtime_answering (Inr rate_limited)"]
  have 2: "map (\<lambda>call. opt_body (snd call))
     (calls (mainHandler CONFIG (runtime_answering (Inr rate_limited)) chat_request)) = [Some ''{}'']"
    by (simp add: chat_request_def)
  have 3: "req_body models_request = Some ''ignored''"
    by (simp add: models_request_def)
  from g c 1 2 3 show ?thesis
    by blast
qed

text \<open>
  The headers of the outbound call. The loop of lines 50-55 iterates over the inbound
  headers and stores each entry with \<^verbatim>\<open>set\<close>. No header under the name \<^verbatim>\<open>Host\<close>, in
  any case, reaches the outbound call, and every other name but \<^verbatim>\<open>set-cookie\<close> keeps
  the value \<^verbatim>\<open>get\<close> shows for it, normalised (without whitespace at its ends). Of
  the values of \<^verbatim>\<open>set-cookie\<close>, which iteration yields one by one, each \<^verbatim>\<open>set\<close>
  overwrites the one before: only the last is left.
\<close>

lemma header_values_copy_header:
  "header_values (copy_header acc e) n =
     (if toLowerCase (fst e) \<noteq> ''host'' \<and> toLowerCase (fst e) = toLowerCase n
      then [normalize_value (snd e)]
      else header_values acc n)"
  by (simp add: copy_header_def header_values_headers_set)

lemma header_values_copy_loop:
  "header_values (foldl copy_header acc es) n =
     (if toLowerCase n = ''host'' \<or> header_values es n = [] then header_values acc n
      else [normalize_value (last (header_values es n))])"
proof (induction es arbitrary: acc)
  case Nil
  then show ?case by (simp add: header_values_Nil)
next
  case (Cons e es)
  then show ?case
    by (auto simp add: header_values_Cons header_values_copy_header)
qed

lemma header_values_outbound:
  "header_values (outbound_headers hs) n =
     (if toLowerCase n = ''host'' \<or> header_values hs n = [] then []
      else if toLowerCase n = ''set-cookie'' then [normalize_value (last (header_values hs n))]
      else [normalize_value (join_values (header_values hs n))])"
  by (simp add: outbound_headers_def header_values_copy_loop new_Headers_def fill_headers_def
      header_values_Nil header_values_entries headers_has_values)

lemma outbound_headers_no_host: "\<not> headers_has (outbound_headers hs) ''Host''"
  by (simp add: headers_has_values header_values_outbound lower_literals)

lemma outbound_headers_get:
  assumes "toLowerCase n \<noteq> ''host''" and "toLowerCase n \<noteq> ''set-cookie''"
  shows "headers_get (outbound_headers hs) n = map_option normalize_value (headers_get hs n)"
  using assms by (simp add: headers_get_values header_values_outbound)

lemma cookie_headers_copied:
  "outbound_headers [(''Set-Cookie'', ''a=1''), (''Set-Cookie'', ''b=2'')] =
     [(''set-cookie'', ''b=2'')]"
  by code_simp

lemma cookie_headers_get:
  "headers_get [(''Set-Cookie'', ''a=1''), (''Set-Cookie'', ''b=2'')] ''Set-Cookie'' = Some ''a=1, b=2''"
  "headers_get [(''set-cookie'', ''b=2'')] ''Set-Cookie'' = Some ''b=2''"
  by code_simp+

text \<open>
  C2, at a request with the two headers \<^verbatim>\<open>Set-Cookie: a=1\<close> and \<^verbatim>\<open>Set-Cookie: b=2\<close>:
  the inbound collection shows both values under the name, the outbound call carries
  only \<^verbatim>\<open>b=2\<close>. The inbound header with the value \<^verbatim>\<open>a=1\<close>, whose name is not
  \<^verbatim>\<open>Host\<close>, is not in the outbound collection.
\<close>

theorem cookie_values_lost:
  "req_headers cookie_request = [(''Set-Cookie'', ''a=1''), (''Set-Cookie'', ''b=2'')] \<and>
   headers_get (req_headers cookie_request) ''Set-Cookie'' = Some ''a=1, b=2'' \<and>
   map (\<lambda>call. opt_headers (snd call))
     (calls (mainHandler CONFIG (runtime_answering (Inr rate_limited)) cookie_request)) =
     [[(''set-cookie'', ''b=2'')]] \<and>
   map (\<lambda>call. headers_get (opt_headers (snd call)) ''Set-Cookie'')
     (calls (mainHandler CONFIG (runtime_answering (Inr rate_limited)) cookie_request)) =
     [Some ''b=2'']"
  by (simp add: forwarded_calls forwarded_samples fetchOptions_def,
      simp add: cookie_request_def cookie_headers_copied cookie_headers_get)
section \<open>The response\<close>


lemma rate_limited_facts:
  "200 \<le> status rate_limited" "status rate_limited \<le> 599"
  "reason_phrase (statusText rate_limited)"
  "body rate_limited = None \<or> \<not> null_body_status (status rate_limited)"
  "\<not> null_body_status (status rate_limited)"
  "headers_get (headers rate_limited) ''Content-Type'' = Some ''application/json''"
  "headers_get (headers rate_limited) ''Access-Control-Allow-Origin'' =
     Some ''https://console.groq.com''"
  "toLowerCase ''Content-Type'' = ''content-type''"
  "normalize_value ''application/json'' = ''application/json''"
  by code_simp+





text \<open>
  C4 as stated fails in its last part, that the failed outbound call is the only error
  path: an outbound call that succeeds with status 600 ends in the same 500 response,
  through the same \<^verbatim>\<open>catch\<close> block, because building the response at line 81 throws.
\<close>

theorem error_response_without_failure:
  "fetch (runtime_answering (Inr (rate_limited\<lparr>status := 600\<rparr>)))
     (targetUrl CONFIG chat_request) (fetchOptions chat_request) =
     Inr (rate_limited\<lparr>status := 600\<rparr>) \<and>
   outcome (mainHandler CONFIG (runtime_answering (Inr (rate_limited\<lparr>status := 600\<rparr>)))
              chat_request) =
     Inr \<lparr>status = 500, statusText = [],
          headers = [(''Content-Type'', ''text/plain''), (''Access-Control-Allow-Origin'', ''*'')],
          body = Some ''Proxy Error: The status provided is outside the range [200, 599]''\<rparr>"
proof -
  have "try_block CONFIG (runtime_answering (Inr (rate_limited\<lparr>status := 600\<rparr>))) chat_request =
      Inl (ThrownObject (Some ''The status provided is outside the range [200, 599]''))"
    by (simp add: try_block_def fetch_runtime_answering new_Response_status_refused,
        simp add: runtime_answering_def)
  then show ?thesis
    by (simp add: forwarded_run forwarded_samples catch_block_outcome fetch_runtime_answering)
qed

text \<open>
  C4, amended. For every forwarded request whose outbound call fails with an error
  object, the handler returns status 500, the headers \<^verbatim>\<open>Content-Type: text/plain\<close> and
  \<^verbatim>\<open>Access-Control-Allow-Origin: *\<close>, and the body \<^verbatim>\<open>Proxy Error: \<close> followed by the
  error's message, or by \<^verbatim>\<open>Unknown error\<close> when the error has no message (none at all,
  or an empty one). The outbound call is not repeated: \<^verbatim>\<open>fetch\<close> is called once, whatever
  it answers. The \<^verbatim>\<open>catch\<close> block of lines 86-95 that builds this response is the only
  error handling of a forwarded request, and the request ends in it exactly when the
  \<^verbatim>\<open>try\<close> block throws: when the outbound call fails, whatever it throws, or when it
  succeeds and building the response from the upstream answer throws; otherwise the
  handler returns the response built at line 81.
\<close>

theorem transport_failure:
  assumes "forwarded req"
  shows "(\<forall>m. fetch rt (targetUrl cfg req) (fetchOptions req) = Inl (ThrownObject m) \<longrightarrow>
            outcome (mainHandler cfg rt req) =
              Inr \<lparr>status = 500, statusText = [],
                   headers = [(''Content-Type'', ''text/plain''),
                              (''Access-Control-Allow-Origin'', ''*'')],
                   body = Some (''Proxy Error: '' @
                                (case m of
                                   None \<Rightarrow> ''Unknown error''
                                 | Some msg \<Rightarrow> if msg = [] then ''Unknown error'' else msg))\<rparr>) \<and>
         calls (mainHandler cfg rt req) = [(targetUrl cfg req, fetchOptions req)] \<and>
         mainHandler cfg rt req =
           (case fetch rt (targetUrl cfg req) (fetchOptions req) of
              Inl error \<Rightarrow>
                catch_block rt (targetUrl cfg req) [(targetUrl cfg req, fetchOptions req)]
                  (if logRequests cfg then [request_line cfg rt req] else []) error
            | Inr upstream \<Rightarrow>
                (case new_Response rt (map_option FromStream (body upstream))
                        \<lparr>init_status = status upstream, init_statusText = statusText upstream,
                         init_headers = FromHeaders (responseHeaders (headers upstream))\<rparr> of
                   Inl error \<Rightarrow>
                     catch_block rt (targetUrl cfg req) [(targetUrl cfg req, fetchOptions req)]
                       (if logRequests cfg then [request_line cfg rt req] else []) error
                 | Inr r \<Rightarrow>
                     \<lparr>outcome = Inr r, calls = [(targetUrl cfg req, fetchOptions req)],
                      console = (if logRequests cfg then [request_line cfg rt req] else [])\<rparr>))"
proof (intro conjI allI impI)
  fix m
  assume "fetch rt (targetUrl cfg req) (fetchOptions req) = Inl (ThrownObject m)"
  then have "try_block cfg rt req = Inl (ThrownObject m)"
    by (rule try_block_fetch_failed)
  with assms show "outcome (mainHandler cfg rt req) =
      Inr \<lparr>status = 500, statusText = [],
           headers = [(''Content-Type'', ''text/plain''),
                      (''Access-Control-Allow-Origin'', ''*'')],
           body = Some (''Proxy Error: '' @
                        (case m of
                           None \<Rightarrow> ''Unknown error''
                         | Some msg \<Rightarrow> if msg = [] then ''Unknown error'' else msg))\<rparr>"
    by (simp add: forwarded_run catch_block_outcome)
next
  from assms show "calls (mainHandler cfg rt req) = [(targetUrl cfg req, fetchOptions req)]"
    by (rule forwarded_calls)
next
  from assms show "mainHandler cfg rt req =
      (case fetch rt (targetUrl cfg req) (fetchOptions req) of
         Inl error \<Rightarrow>
           catch_block rt (targetUrl cfg req) [(targetUrl cfg req, fetchOptions req)]
             (if logRequests cfg then [request_line cfg rt req] else []) error
       | Inr upstream \<Rightarrow>
           (case new_Response rt (map_option FromStream (body upstream))
                   \<lparr>init_status = status upstream, init_statusText = statusText upstream,
                    init_headers = FromHeaders (responseHeaders (headers upstream))\<rparr> of
              Inl error \<Rightarrow>
                catch_block rt (targetUrl cfg req) [(targetUrl cfg req, fetchOptions req)]
                  (if logRequests cfg then [request_line cfg rt req] else []) error
            | Inr r \<Rightarrow>
                \<lparr>outcome = Inr r, calls = [(targetUrl cfg req, fetchOptions req)],
                 console = (if logRequests cfg then [request_line cfg rt req] else [])\<rparr>))"
    by (simp add: forwarded_run try_block_def split: sum.split)
qed

theorem transport_failure_witness:
  "forwarded chat_request \<and>
   fetch (runtime_answering (Inl (ThrownObject (Some ''connection refused''))))
     (targetUrl CONFIG chat_request) (fetchOptions chat_request) =
       Inl (ThrownObject (Some ''connection refused'')) \<and>
   outcome (mainHandler CONFIG (runtime_answering (Inl (ThrownObject (Some ''connection refused''))))
              chat_request) =
     Inr \<lparr>status = 500, statusText = [],
          headers = [(''Content-Type'', ''text/plain''), (''Access-Control-Allow-Origin'', ''*'')],
          body = Some ''Proxy Error: connection refused''\<rparr> \<and>
   calls (mainHandler CONFIG (runtime_answering (Inl (ThrownObject (Some ''connection refused''))))
            chat_request) =
     [(targetUrl CONFIG chat_request, fetchOptions chat_request)]"
proof -
  let ?rt = "runtime_answering (Inl (ThrownObject (Some ''connection refused'')))"
  have f: "forwarded chat_request"
    by (rule forwarded_samples)
  have a: "fetch ?rt (targetUrl CONFIG chat_request) (fetchOptions chat_request) =
      Inl (ThrownObject (Some ''connection refused''))"
    by (rule fetch_runtime_answering)
  note t = transport_failure [OF f, of ?rt CONFIG]
  from t [THEN conjunct1, rule_format, OF a]
  have "outcome (mainHandler CONFIG ?rt chat_request) =
     Inr \<lparr>status = 500, statusText = [],
          headers = [(''Content-Type'', ''text/plain''), (''Access-Control-Allow-Origin'', ''*'')],
          body = Some ''Proxy Error: connection refused''\<rparr>"
    by simp
  moreover from t have "calls (mainHandler CONFIG ?rt chat_request) =
     [(targetUrl CONFIG chat_request, fetchOptions chat_request)]"
    by blast
  ultimately show ?thesis
    using f a by blast
qed

text \<open>
  The handler's other way of ending without a response lies before the \<^verbatim>\<open>try\<close> block:
  when \<^verbatim>\<open>new URL\<close> at line 15 throws, the handler throws that value, calls nothing and
  writes nothing (\<open>mainHandler_inbound_unparsed\<close>). In the \<^verbatim>\<open>catch\<close> block, line 88
  throws for the thrown values of \<open>message_unreadable\<close> and for no other.
\<close>

lemma error_message_unreadable:
  "(\<exists>e'. error_message rt e = Inl e') = message_unreadable e"
  by (cases e) (auto simp add: error_message_def message_unreadable_def split: option.split)

lemma catch_block_responds:
  assumes "\<not> message_unreadable e"
  shows "\<exists>r. outcome (catch_block rt t called logged e) = Inr r"
proof -
  from assms obtain m where "error_message rt e = Inr m"
    using error_message_unreadable [of rt e] by (cases "error_message rt e") auto
  then show ?thesis
    by (simp add: catch_block_def error_response)
qed

lemma forwarded_responds:
  assumes "forwarded req"
    and "\<forall>e. fetch rt (targetUrl cfg req) (fetchOptions req) = Inl e \<longrightarrow> \<not> message_unreadable e"
  shows "\<exists>r. outcome (mainHandler cfg rt req) = Inr r"
proof (cases "try_block cfg rt req")
  case (Inr r)
  with assms(1) show ?thesis
    by (simp add: forwarded_run)
next
  case (Inl e)
  have "\<not> message_unreadable e"
  proof (cases "fetch rt (targetUrl cfg req) (fetchOptions req)")
    case failed: (Inl e')
    with Inl have "e' = e"
      by (simp add: try_block_def)
    with failed assms(2) show ?thesis
      by simp
  next
    case (Inr upstream)
    with Inl obtain msg where "e = ThrownObject (Some msg)"
      by (auto simp add: try_block_def dest: new_Response_throws_object)
    then show ?thesis
      by (simp add: message_unreadable_def)
  qed
  then have "\<exists>r. outcome (catch_block rt t called logged e) = Inr r" for t called logged
    by (rule catch_block_responds)
  with assms(1) Inl show ?thesis
    by (simp add: forwarded_run)
qed

lemma local_responds:
  assumes "\<not> forwarded req"
  shows "\<exists>r. outcome (mainHandler cfg rt req) = Inr r"
proof (cases "req_method req = ''OPTIONS''")
  case True
  then show ?thesis
    by (simp add: mainHandler_def handleOptions_def preflight_response)
next
  case False
  with assms have "pathname (req_url req) = ''/'' \<or> pathname (req_url req) = ''/index.html''"
    by (auto simp add: forwarded_def)
  with False show ?thesis
    by (simp add: landing_run)
qed

lemma chat_inbound_parsed:
  "new_URL (runtime_answering a) (in_url chat_inbound) =
     Inr \<lparr>pathname = ''/openai/v1/chat/completions'', query = Some ''stream=1''\<rparr>"
  "received chat_inbound \<lparr>pathname = ''/openai/v1/chat/completions'', query = Some ''stream=1''\<rparr> =
     chat_request"
  by (simp_all add: runtime_answering_def chat_inbound_def received_def chat_request_def)

text \<open>
  C5 as stated fails when the value thrown is \<^verbatim>\<open>null\<close>: reading \<^verbatim>\<open>error.message\<close> at
  line 88 throws inside the \<^verbatim>\<open>catch\<close> block, and the handler throws to its caller.
\<close>

theorem thrown_null_escapes:
  "outcome (mainHandler_inbound CONFIG (runtime_answering (Inl ThrownNull)) chat_inbound) =
     Inl (ThrownObject (Some ''Cannot read properties of null''))"
  by (simp add: mainHandler_inbound_parsed [OF chat_inbound_parsed(1)] chat_inbound_parsed(2)
        forwarded_run forwarded_samples try_block_def fetch_runtime_answering
        catch_block_throws type_error_def,
      simp add: runtime_answering_def)

text \<open>
  C5, amended. For every inbound request that is a preflight or whose URL line 15
  parses (as it does every URL the server hands over), and every outcome of the
  outbound call other than a thrown value on which line 88 itself throws (\<^verbatim>\<open>null\<close>,
  \<^verbatim>\<open>undefined\<close>, or an object whose message cannot be read or converted to a string),
  that is for success with any upstream response and for a thrown error, string, other
  primitive, or object with or without a message, the handler ends with one response
  and throws nothing to its caller.
\<close>

theorem handler_resolves:
  assumes "in_method inb = ''OPTIONS'' \<or> new_URL rt (in_url inb) = Inr u"
    and "\<not> forwarded (received inb u) \<or>
         (\<forall>e. fetch rt (targetUrl cfg (received inb u)) (fetchOptions (received inb u)) = Inl e
               \<longrightarrow> \<not> message_unreadable e)"
  shows "\<exists>r. outcome (mainHandler_inbound cfg rt inb) = Inr r"
proof (cases "in_method inb = ''OPTIONS''")
  case True
  then show ?thesis
    by (simp add: mainHandler_inbound_options handleOptions_def preflight_response)
next
  case False
  with assms(1) have parsed: "new_URL rt (in_url inb) = Inr u"
    by simp
  have "\<exists>r. outcome (mainHandler cfg rt (received inb u)) = Inr r"
  proof (cases "forwarded (received inb u)")
    case True
    with assms(2) show ?thesis
      by (simp add: forwarded_responds)
  next
    case False
    then show ?thesis
      by (rule local_responds)
  qed
  with parsed show ?thesis
    by (simp add: mainHandler_inbound_parsed)
qed

theorem handler_resolves_witness:
  "new_URL (runtime_answering (Inl (ThrownString ''boom''))) (in_url chat_inbound) =
     Inr \<lparr>pathname = ''/openai/v1/chat/completions'', query = Some ''stream=1''\<rparr> \<and>
   forwarded (received chat_inbound
                \<lparr>pathname = ''/openai/v1/chat/completions'', query = Some ''stream=1''\<rparr>) \<and>
   fetch (runtime_answering (Inl (ThrownString ''boom''))) (targetUrl CONFIG chat_request)
     (fetchOptions chat_request) = Inl (ThrownString ''boom'') \<and>
   \<not> message_unreadable (ThrownString ''boom'') \<and>
   (\<exists>r. outcome (mainHandler_inbound CONFIG (runtime_answering (Inl (ThrownString ''boom'')))
                   chat_inbound) = Inr r)"
proof -
  let ?rt = "runtime_answering (Inl (ThrownString ''boom''))"
  let ?u = "\<lparr>pathname = ''/openai/v1/chat/completions'', query = Some ''stream=1''\<rparr>"
  have p: "new_URL ?rt (in_url chat_inbound) = Inr ?u"
    by (rule chat_inbound_parsed)
  have f: "forwarded (received chat_inbound ?u)"
    by (simp add: chat_inbound_parsed forwarded_samples)
  have a: "fetch ?rt (targetUrl CONFIG chat_request) (fetchOptions chat_request) =
      Inl (ThrownString ''boom'')"
    by (rule fetch_runtime_answering)
  have n: "\<not> message_unreadable (ThrownString ''boom'')"
    by (simp add: message_unreadable_def)
  from p have 1: "in_method chat_inbound = ''OPTIONS'' \<or> new_URL ?rt (in_url chat_inbound) = Inr ?u"
    by blast
  from n have 2: "\<not> forwarded (received chat_inbound ?u) \<or>
      (\<forall>e. fetch ?rt (targetUrl CONFIG (received chat_inbound ?u))
              (fetchOptions (received chat_inbound ?u)) = Inl e \<longrightarrow> \<not> message_unreadable e)"
    by (simp add: fetch_runtime_answering)
  from handler_resolves [OF 1 2] p f a n show ?thesis
    by blast
qed

section \<open>Console output\<close>

text \<open>
  C9 as stated fails on the failure path: with \<^verbatim>\<open>logRequests\<close> off, a failed outbound
  call still writes the error line of line 87.
\<close>

theorem error_line_not_gated:
  "console (mainHandler (CONFIG\<lparr>logRequests := False\<rparr>)
              (runtime_answering (Inl (ThrownObject (Some ''connection refused''))))
              chat_request) =
     [ConsoleError ''[ERROR] Failed to fetch https://api.groq.com/openai/v1/chat/completions?stream=1:''
        (ThrownObject (Some ''connection refused''))]"
  by (simp add: forwarded_run forwarded_samples try_block_def fetch_runtime_answering
        console_catch_block,
      simp add: targetUrl_def CONFIG_def chat_request_def search_def)

text \<open>
  C9, amended. Requests answered locally write nothing to the console. A forwarded
  request writes the request line (the timestamp of \<^verbatim>\<open>toISOString\<close> in brackets, the
  method, the path, an arrow and the target URL) exactly when \<^verbatim>\<open>logRequests\<close> is
  set, and after it, whether the flag is set or not, one error line with the target
  URL and the thrown value when the \<^verbatim>\<open>try\<close> block fails; it writes nothing else.
\<close>

theorem console_output:
  "console (mainHandler cfg rt req) =
     (if forwarded req
      then (if logRequests cfg
            then [ConsoleLog (''['' @ now_iso rt @ ''] '' @ req_method req @ '' ''
                              @ pathname (req_url req) @ '' -> '' @ targetUrl cfg req)]
            else []) @
           (case try_block cfg rt req of
              Inl error \<Rightarrow>
                [ConsoleError (''[ERROR] Failed to fetch '' @ targetUrl cfg req @ '':'') error]
            | Inr r \<Rightarrow> [])
      else [])"
proof (cases "forwarded req")
  case True
  then show ?thesis
    by (simp add: forwarded_run console_catch_block request_line_def split: sum.split)
next
  case False
  then show ?thesis
    by (simp add: local_console)
qed

theorem console_output_witness:
  "console (mainHandler (CONFIG\<lparr>logRequests := False\<rparr>) (runtime_answering (Inr rate_limited))
     chat_request) = [] \<and>
   console (mainHandler CONFIG (runtime_answering (Inr rate_limited)) chat_request) =
     [ConsoleLog (''[2025-03-01T09:30:00.000Z] POST /openai/v1/chat/completions -> ''
                  @ ''https://api.groq.com/openai/v1/chat/completions?stream=1'')]"
proof -
  have ok: "\<exists>r. try_block cfg (runtime_answering (Inr rate_limited)) chat_request = Inr r" for cfg
    by (simp add: try_block_def fetch_runtime_answering new_Response_stream rate_limited_facts)
  have t: "targetUrl CONFIG chat_request =
      ''https://api.groq.com/openai/v1/chat/completions?stream=1''"
    by (simp add: targetUrl_def CONFIG_def chat_request_def search_def)
  from ok [of "CONFIG\<lparr>logRequests := False\<rparr>"]
    console_output [of "CONFIG\<lparr>logRequests := False\<rparr>" "runtime_answering (Inr rate_limited)"
      chat_request]
  have off: "console (mainHandler (CONFIG\<lparr>logRequests := False\<rparr>)
      (runtime_answering (Inr rate_limited)) chat_request) = []"
    by (auto simp add: forwarded_samples)
  from ok [of CONFIG]
    console_output [of CONFIG "runtime_answering (Inr rate_limited)" chat_request]
  have "console (mainHandler CONFIG (runtime_answering (Inr rate_limited)) chat_request) =
     [ConsoleLog (''[2025-03-01T09:30:00.000Z] POST /openai/v1/chat/completions -> ''
                  @ ''https://api.groq.com/openai/v1/chat/completions?stream=1'')]"
    by (auto simp add: forwarded_samples t, simp_all add: CONFIG_def runtime_answering_def chat_request_def)
  with off show ?thesis
    by blast
qed

end
